theory Spec2Isabelle
  imports Complex_Main "HOL-Library.AList" "HOL-Library.Log_Nat"
begin

section \<open>Python floats\<close>

text \<open>
  The backend (\<^verbatim>\<open>main.py\<close>, \<^verbatim>\<open>schemas.py\<close>) computes with Python floats, which are
  IEEE 754 binary64 numbers. A float is modelled by its value: a finite double is the
  rational number it denotes, and there are the two infinities and NaN. The sign of zero is
  not represented: \<^verbatim>\<open>-0.0\<close> and \<^verbatim>\<open>0.0\<close> compare equal, and no branch of the program
  tells them apart.

  Every arithmetic operation returns the double nearest to the exact result, ties going to
  the even significand. A double has a significand of 53 bits; the spacing of the doubles
  around a number of binary exponent \<open>e\<close> is \<open>2 powi (e - 52)\<close>, and not less than
  \<open>2 powi (- 1074)\<close>, the spacing of the subnormal numbers. A result that rounds to
  \<open>2 ^ 1024\<close> or beyond is an infinity.
\<close>

datatype pyfloat = Finite rat | PosInf | NegInf | NaN

text \<open>The binary exponent of a non-zero rational: the \<open>e\<close> with
  \<open>2 powi e \<le> \<bar>x\<bar> < 2 powi (e + 1)\<close>, found from the bit length of an integer part.\<close>

definition float_exponent :: "rat \<Rightarrow> int" where
  "float_exponent x =
     (let a = \<bar>x\<bar> in
      if 1 \<le> a then bitlen \<lfloor>a\<rfloor> - 1
      else (let k = bitlen \<lfloor>1 / a\<rfloor> - 1
            in if a * 2 powi k = 1 then - k else - k - 1))"

definition round_half_even :: "rat \<Rightarrow> int" where
  "round_half_even m =
     (let f = \<lfloor>m\<rfloor>; d = m - of_int f
      in if d < 1 / 2 then f else if 1 / 2 < d then f + 1
         else if even f then f else f + 1)"

definition round_to_double :: "rat \<Rightarrow> rat" where
  "round_to_double x =
     (if x = 0 then 0
      else (let p = max (float_exponent x - 52) (- 1074)
            in of_int (round_half_even (x / 2 powi p)) * 2 powi p))"

text \<open>The float nearest to a rational: the value of a decimal literal of the source, of a
  number of a JSON body, and of the exact result of an operation.\<close>

definition nearest_float :: "rat \<Rightarrow> pyfloat" where
  "nearest_float x =
     (let r = round_to_double x
      in if 2 ^ 1024 \<le> r then PosInf
         else if r \<le> - (2 ^ 1024) then NegInf
         else Finite r)"

text \<open>\<^verbatim>\<open>x + y\<close>, \<^verbatim>\<open>-x\<close>, \<^verbatim>\<open>x - y\<close>, \<^verbatim>\<open>x * y\<close> and \<^verbatim>\<open>abs(x)\<close> on floats.\<close>

fun float_add :: "pyfloat \<Rightarrow> pyfloat \<Rightarrow> pyfloat" where
  "float_add (Finite a) (Finite b) = nearest_float (a + b)"
| "float_add NaN y = NaN"
| "float_add x NaN = NaN"
| "float_add PosInf NegInf = NaN"
| "float_add NegInf PosInf = NaN"
| "float_add PosInf y = PosInf"
| "float_add NegInf y = NegInf"
| "float_add (Finite a) y = y"

fun float_neg :: "pyfloat \<Rightarrow> pyfloat" where
  "float_neg (Finite a) = Finite (- a)"
| "float_neg PosInf = NegInf"
| "float_neg NegInf = PosInf"
| "float_neg NaN = NaN"

definition float_sub :: "pyfloat \<Rightarrow> pyfloat \<Rightarrow> pyfloat" where
  "float_sub x y = float_add x (float_neg y)"

text \<open>The sign of a float, 0 for NaN: a product with an infinity is NaN when the other
  factor is zero or NaN, and an infinity of the product's sign otherwise.\<close>

fun float_sgn :: "pyfloat \<Rightarrow> int" where
  "float_sgn (Finite a) = (if a = 0 then 0 else if 0 < a then 1 else - 1)"
| "float_sgn PosInf = 1"
| "float_sgn NegInf = - 1"
| "float_sgn NaN = 0"

fun float_mul :: "pyfloat \<Rightarrow> pyfloat \<Rightarrow> pyfloat" where
  "float_mul (Finite a) (Finite b) = nearest_float (a * b)"
| "float_mul x y =
     (if float_sgn x * float_sgn y = 0 then NaN
      else if 0 < float_sgn x * float_sgn y then PosInf else NegInf)"

fun float_abs :: "pyfloat \<Rightarrow> pyfloat" where
  "float_abs (Finite a) = Finite \<bar>a\<bar>"
| "float_abs PosInf = PosInf"
| "float_abs NegInf = PosInf"
| "float_abs NaN = NaN"

text \<open>\<^verbatim>\<open>x > y\<close> and \<^verbatim>\<open>x >= y\<close>: every comparison with NaN is false.\<close>

fun float_gt :: "pyfloat \<Rightarrow> pyfloat \<Rightarrow> bool" where
  "float_gt (Finite a) (Finite b) \<longleftrightarrow> b < a"
| "float_gt NaN y \<longleftrightarrow> False"
| "float_gt x NaN \<longleftrightarrow> False"
| "float_gt x PosInf \<longleftrightarrow> False"
| "float_gt PosInf y \<longleftrightarrow> True"
| "float_gt NegInf y \<longleftrightarrow> False"
| "float_gt (Finite a) NegInf \<longleftrightarrow> True"

fun float_ge :: "pyfloat \<Rightarrow> pyfloat \<Rightarrow> bool" where
  "float_ge (Finite a) (Finite b) \<longleftrightarrow> b \<le> a"
| "float_ge NaN y \<longleftrightarrow> False"
| "float_ge x NaN \<longleftrightarrow> False"
| "float_ge PosInf y \<longleftrightarrow> True"
| "float_ge x NegInf \<longleftrightarrow> True"
| "float_ge x PosInf \<longleftrightarrow> False"
| "float_ge NegInf y \<longleftrightarrow> False"

fun is_finite :: "pyfloat \<Rightarrow> bool" where
  "is_finite (Finite a) \<longleftrightarrow> True"
| "is_finite x \<longleftrightarrow> False"

section \<open>Values, dictionaries and exceptions\<close>

text \<open>
  The values that travel between the HTTP layer and the document store. A Python
  \<^verbatim>\<open>int\<close> is an \<open>int\<close>, a \<^verbatim>\<open>str\<close> a \<open>string\<close>, a \<^verbatim>\<open>float\<close> a
  \<open>pyfloat\<close>. A \<^verbatim>\<open>dict\<close> is an association list in insertion order, read with
  \<open>map_of\<close>.
\<close>

datatype ObjectId = ObjectId nat

datatype pyval =
    PNone
  | PBool bool
  | PInt int
  | PFloat pyfloat
  | PStr string
  | PList "pyval list"
  | PDict "(string \<times> pyval) list"
  | PObjectId ObjectId

type_synonym pydict = "(string \<times> pyval) list"

datatype pyexn = KeyError string | OverflowError string | Exception string

datatype HTTPException = HTTPException (status_code: int) (detail: string)

text \<open>\<^verbatim>\<open>str(e)\<close> of an exception: the message, and for a \<^verbatim>\<open>KeyError\<close> the quoted key.\<close>

fun str_exn :: "pyexn \<Rightarrow> string" where
  "str_exn (Exception msg) = msg"
| "str_exn (OverflowError msg) = msg"
| "str_exn (KeyError k) = [CHR 0x27] @ k @ [CHR 0x27]"

text \<open>The string form of an \<^verbatim>\<open>ObjectId\<close>: its 12 bytes as 24 hexadecimal digits.\<close>

definition hex_digit :: "nat \<Rightarrow> char" where
  "hex_digit n = ''0123456789abcdef'' ! (n mod 16)"

fun hex_digits :: "nat \<Rightarrow> nat \<Rightarrow> string" where
  "hex_digits 0 n = []"
| "hex_digits (Suc k) n = hex_digits k (n div 16) @ [hex_digit n]"

definition str_ObjectId :: "ObjectId \<Rightarrow> string" where
  "str_ObjectId oid = (case oid of ObjectId n \<Rightarrow> hex_digits 24 n)"

text \<open>
  \<^verbatim>\<open>str(v)\<close> for the values the handlers apply it to. The string forms of floats, ints,
  lists and dicts are not modelled: the handlers only render identifiers.
\<close>

fun str :: "pyval \<Rightarrow> string" where
  "str (PObjectId oid) = str_ObjectId oid"
| "str (PStr s) = s"
| "str PNone = ''None''"
| "str (PBool b) = (if b then ''True'' else ''False'')"

text \<open>\<^verbatim>\<open>d.pop(k)\<close> raises \<^verbatim>\<open>KeyError\<close> on a missing key; \<^verbatim>\<open>d[k] = v\<close> overwrites
  the entry of \<open>k\<close> in place or appends a new one.\<close>

definition dict_pop :: "pydict \<Rightarrow> string \<Rightarrow> pyexn + (pyval \<times> pydict)" where
  "dict_pop d k = (case map_of d k of
       None \<Rightarrow> Inl (KeyError k)
     | Some v \<Rightarrow> Inr (v, AList.delete k d))"

definition dict_set :: "pydict \<Rightarrow> string \<Rightarrow> pyval \<Rightarrow> pydict" where
  "dict_set d k v = AList.update k v d"

text \<open>
  The conversion of an \<^verbatim>\<open>int\<close> to a float, as the product of a float and an
  \<^verbatim>\<open>int\<close> performs it: the nearest double, and \<^verbatim>\<open>OverflowError\<close> when that is
  beyond the range of the doubles.
\<close>

definition float_of_int :: "int \<Rightarrow> pyexn + pyfloat" where
  "float_of_int i =
     (case nearest_float (of_int i) of
        Finite r \<Rightarrow> Inr (Finite r)
      | _ \<Rightarrow> Inl (OverflowError ''int too large to convert to float''))"

text \<open>\<^verbatim>\<open>x * i\<close> for a float \<open>x\<close> and an \<^verbatim>\<open>int\<close> \<open>i\<close>.\<close>

definition float_mul_int :: "pyfloat \<Rightarrow> int \<Rightarrow> pyexn + pyfloat" where
  "float_mul_int x i =
     (case float_of_int i of
        Inl e \<Rightarrow> Inl e
      | Inr y \<Rightarrow> Inr (float_mul x y))"

text \<open>
  \<^verbatim>\<open>sum(xs)\<close> over floats starts from the \<^verbatim>\<open>int\<close> 0 and adds the first float to
  it. CPython up to 3.11 then adds the remaining floats one by one, each addition rounded
  (\<open>Sequential\<close>). From 3.12 on it keeps the rounding errors of the additions in a
  compensation term \<open>c\<close>, which it adds at the end if it is finite and not zero
  (\<open>Compensated\<close>). The handler is modelled for either interpreter.
\<close>

datatype summation = Sequential | Compensated

fun compensated_sum :: "pyfloat \<Rightarrow> pyfloat \<Rightarrow> pyfloat list \<Rightarrow> pyfloat" where
  "compensated_sum f c [] = (if c \<noteq> Finite 0 \<and> is_finite c then float_add f c else f)"
| "compensated_sum f c (x # xs) =
     (let t = float_add f x;
          c' = (if float_ge (float_abs f) (float_abs x)
                then float_add c (float_add (float_sub f t) x)
                else float_add c (float_add (float_sub x t) f))
      in compensated_sum t c' xs)"

definition py_sum :: "summation \<Rightarrow> pyfloat list \<Rightarrow> pyfloat" where
  "py_sum alg xs =
     (case xs of
        [] \<Rightarrow> Finite 0
      | x # rest \<Rightarrow>
          (case alg of
             Sequential \<Rightarrow> foldl float_add (float_add (Finite 0) x) rest
           | Compensated \<Rightarrow> compensated_sum (float_add (Finite 0) x) (Finite 0) rest))"

section \<open>Schemas\<close>

text \<open>
  \<^verbatim>\<open>schemas.py\<close>: the pydantic models \<^verbatim>\<open>OrderItem\<close> and \<^verbatim>\<open>Order\<close>. The field
  \<^verbatim>\<open>total\<close> is named \<open>total_amount\<close> here, \<open>total\<close> being a constant of HOL.
\<close>

record OrderItem =
  product_id :: string
  title :: string
  price :: pyfloat
  quantity :: int
  image_url :: "string option"

record Order =
  customer_name :: string
  customer_email :: string
  customer_address :: string
  items :: "OrderItem list"
  subtotal :: pyfloat
  tax :: pyfloat
  total_amount :: pyfloat
  status :: string

text \<open>
  The declared constraints: \<^verbatim>\<open>price: ge=0\<close>, \<^verbatim>\<open>quantity: ge=1\<close>,
  \<^verbatim>\<open>items: min_items=1\<close>, \<^verbatim>\<open>subtotal, tax, total: ge=0\<close>. The field \<^verbatim>\<open>status\<close>
  is declared \<^verbatim>\<open>str\<close> with default \<^verbatim>\<open>"pending"\<close> and carries no constraint; the
  format check of \<^verbatim>\<open>EmailStr\<close> belongs to a library and is not modelled.
\<close>

definition OrderItem_constraints :: "OrderItem \<Rightarrow> bool" where
  "OrderItem_constraints it \<longleftrightarrow> float_ge (price it) (Finite 0) \<and> 1 \<le> quantity it"

definition Order_constraints :: "Order \<Rightarrow> bool" where
  "Order_constraints ord \<longleftrightarrow>
     1 \<le> length (items ord) \<and> list_all OrderItem_constraints (items ord) \<and>
     float_ge (subtotal ord) (Finite 0) \<and> float_ge (tax ord) (Finite 0) \<and>
     float_ge (total_amount ord) (Finite 0)"

text \<open>
  Building the models from a request body. The numbers of a JSON body are decimal
  numerals; a float field holds the double nearest to the numeral. The field
  \<^verbatim>\<open>status\<close> may be absent: \<^verbatim>\<open>Field("pending", ...)\<close> supplies the default.
\<close>

definition OrderItem_init ::
  "string \<Rightarrow> string \<Rightarrow> rat \<Rightarrow> int \<Rightarrow> string option \<Rightarrow> OrderItem" where
  "OrderItem_init pid ttl p q url =
     \<lparr>product_id = pid, title = ttl, price = nearest_float p, quantity = q, image_url = url\<rparr>"

definition Order_init ::
  "string \<Rightarrow> string \<Rightarrow> string \<Rightarrow> OrderItem list \<Rightarrow> rat \<Rightarrow> rat \<Rightarrow> rat \<Rightarrow> string option \<Rightarrow> Order" where
  "Order_init name email address its sub tx tot st =
     \<lparr>customer_name = name, customer_email = email, customer_address = address,
      items = its, subtotal = nearest_float sub, tax = nearest_float tx,
      total_amount = nearest_float tot,
      status = (case st of None \<Rightarrow> ''pending'' | Some s \<Rightarrow> s)\<rparr>"

text \<open>The values the description of \<^verbatim>\<open>status\<close> lists:
  \<^verbatim>\<open>"pending | confirmed | delivered | cancelled"\<close>.\<close>

definition documented_statuses :: "string list" where
  "documented_statuses = [''pending'', ''confirmed'', ''delivered'', ''cancelled'']"

text \<open>The structural representation of a model, as a dict in field order.\<close>

definition OrderItem_dump :: "OrderItem \<Rightarrow> pyval" where
  "OrderItem_dump it = PDict
     [(''product_id'', PStr (product_id it)),
      (''title'', PStr (title it)),
      (''price'', PFloat (price it)),
      (''quantity'', PInt (quantity it)),
      (''image_url'', (case image_url it of None \<Rightarrow> PNone | Some u \<Rightarrow> PStr u))]"

definition Order_dump :: "Order \<Rightarrow> pydict" where
  "Order_dump ord =
     [(''customer_name'', PStr (customer_name ord)),
      (''customer_email'', PStr (customer_email ord)),
      (''customer_address'', PStr (customer_address ord)),
      (''items'', PList (map OrderItem_dump (items ord))),
      (''subtotal'', PFloat (subtotal ord)),
      (''tax'', PFloat (tax ord)),
      (''total'', PFloat (total_amount ord)),
      (''status'', PStr (status ord))]"

section \<open>The document store\<close>

text \<open>
  \<^verbatim>\<open>main.py\<close> reaches the store through \<^verbatim>\<open>db\<close>, \<^verbatim>\<open>create_document\<close> and
  \<^verbatim>\<open>get_documents\<close> of the module \<^verbatim>\<open>database\<close>, which is not among the
  sources. The global \<^verbatim>\<open>db\<close> is \<open>None\<close> when no store is connected (the case
  \<^verbatim>\<open>test_database\<close> distinguishes), so the handlers below take a
  \<open>database option\<close> and return it, updated.
\<close>

text \<open>
  Modelled from the spec: the document store behind \<^verbatim>\<open>db\<close>, "a schema-flexible database
  storing JSON-like records in named collections", with "identity assigned by the store on
  creation". A stored document is its identifier together with its other fields; the
  counter is the source of the next identifier.
\<close>

record database =
  collections :: "string \<Rightarrow> (ObjectId \<times> pydict) list"
  next_id :: nat

text \<open>
  Modelled from the spec: a stored document as the store hands it out, a dict that holds the
  "internal identifier representation" under \<^verbatim>\<open>_id\<close>, the key the handlers pop.
\<close>

fun as_dict :: "ObjectId \<times> pydict \<Rightarrow> pydict" where
  "as_dict (oid, rest) = (''_id'', PObjectId oid) # rest"

text \<open>
  Modelled from the spec: "filtering is exact-match equality" on the fields of the filter.
  A document matches when it has every key of the filter with an equal value.
\<close>

definition matches :: "pydict \<Rightarrow> pydict \<Rightarrow> bool" where
  "matches filter_dict d = list_all (\<lambda>(k, v). map_of d k = Some v) filter_dict"

text \<open>
  Modelled from the spec: the insertion that \<^verbatim>\<open>create_document\<close> performs, missing with
  the module \<^verbatim>\<open>database\<close>. The document is appended to the named collection under a
  "newly generated unique identifier".
\<close>

definition inserted :: "database \<Rightarrow> string \<Rightarrow> pydict \<Rightarrow> database" where
  "inserted s collection_name data =
     s\<lparr>collections := (collections s)
          (collection_name := collections s collection_name @ [(ObjectId (next_id s), data)]),
       next_id := Suc (next_id s)\<rparr>"

text \<open>
  Modelled from the spec: \<^verbatim>\<open>create_document\<close> of the module \<^verbatim>\<open>database\<close>, which is
  missing. The spec (4.2): "\<^verbatim>\<open>create(collectionName, entity) -> id\<close> inserts a structural
  representation of the entity into the named collection and returns a newly generated
  unique identifier"; (7) store-access failures exist, and the handlers surface them as
  500. The helper raises when no store is connected; the text of that exception is not
  given by the spec, and no statement below depends on it. The argument is the entity's
  structural representation (\<open>Order_dump\<close> for an \<^verbatim>\<open>Order\<close>).
\<close>

definition create_document ::
  "database option \<Rightarrow> string \<Rightarrow> pydict \<Rightarrow> (pyexn + string) \<times> database option" where
  "create_document db collection_name data =
     (case db of
        None \<Rightarrow> (Inl (Exception ''Database not available''), db)
      | Some s \<Rightarrow>
          (Inr (str_ObjectId (ObjectId (next_id s))), Some (inserted s collection_name data)))"

text \<open>
  Modelled from the spec: \<^verbatim>\<open>get_documents\<close> of the module \<^verbatim>\<open>database\<close>, which is
  missing. The spec (4.2): "\<^verbatim>\<open>list(collectionName, filter?) -> sequence of entities\<close>
  returns all matching documents"; the filter is optional, and the store is left as it is.
\<close>

definition get_documents ::
  "database option \<Rightarrow> string \<Rightarrow> pydict option \<Rightarrow> pyexn + pydict list" where
  "get_documents db collection_name filter_dict =
     (case db of
        None \<Rightarrow> Inl (Exception ''Database not available'')
      | Some s \<Rightarrow>
          Inr (filter (matches (case filter_dict of None \<Rightarrow> [] | Some f \<Rightarrow> f))
                 (map as_dict (collections s collection_name))))"

section \<open>The handlers of main.py\<close>

subsection \<open>Listing\<close>

text \<open>
  \<^verbatim>\<open>for d in docs: d["id"] = str(d.pop("_id"))\<close>, the loop of \<^verbatim>\<open>list_products\<close> and
  \<^verbatim>\<open>list_orders\<close>. An exception in the loop leaves the handler through its
  \<^verbatim>\<open>except\<close> clause.
\<close>

definition id_from_oid :: "pydict \<Rightarrow> pyexn + pydict" where
  "id_from_oid d = (case dict_pop d ''_id'' of
       Inl e \<Rightarrow> Inl e
     | Inr (v, d') \<Rightarrow> Inr (dict_set d' ''id'' (PStr (str v))))"

fun ids_from_oids :: "pydict list \<Rightarrow> pyexn + pydict list" where
  "ids_from_oids [] = Inr []"
| "ids_from_oids (d # ds) =
     (case id_from_oid d of
        Inl e \<Rightarrow> Inl e
      | Inr d' \<Rightarrow> (case ids_from_oids ds of Inl e \<Rightarrow> Inl e | Inr ds' \<Rightarrow> Inr (d' # ds')))"

text \<open>\<^verbatim>\<open>except Exception as e: raise HTTPException(status_code=500, detail=str(e))\<close>\<close>

definition internal_error :: "pyexn \<Rightarrow> HTTPException" where
  "internal_error e = HTTPException 500 (str_exn e)"

text \<open>\<^verbatim>\<open>filter_query = {"category": category} if category else {}\<close>: \<open>None\<close> and the
  empty string are both falsy.\<close>

definition list_products :: "database option \<Rightarrow> string option \<Rightarrow> HTTPException + pydict list" where
  "list_products db category =
     (let filter_query =
            (case category of
               None \<Rightarrow> []
             | Some c \<Rightarrow> if c \<noteq> [] then [(''category'', PStr c)] else [])
      in case get_documents db ''product'' (Some filter_query) of
           Inl e \<Rightarrow> Inl (internal_error e)
         | Inr docs \<Rightarrow>
             (case ids_from_oids docs of
                Inl e \<Rightarrow> Inl (internal_error e)
              | Inr docs' \<Rightarrow> Inr docs'))"

definition list_orders :: "database option \<Rightarrow> HTTPException + pydict list" where
  "list_orders db =
     (case get_documents db ''order'' None of
        Inl e \<Rightarrow> Inl (internal_error e)
      | Inr docs \<Rightarrow>
          (case ids_from_oids docs of
             Inl e \<Rightarrow> Inl (internal_error e)
           | Inr docs' \<Rightarrow> Inr docs'))"

subsection \<open>Seeding\<close>

definition demo :: "pydict list" where
  "demo =
     [[(''title'', PStr ''Margherita Pizza''),
       (''description'', PStr ''Classic tomato, mozzarella, basil''),
       (''price'', PFloat (nearest_float 9.99)),
       (''category'', PStr ''Pizza''),
       (''image_url'', PStr ''https://images.unsplash.com/photo-1548365328-9f547fb0953d''),
       (''rating'', PFloat (nearest_float 4.7)),
       (''in_stock'', PBool True)],
      [(''title'', PStr ''Cheeseburger''),
       (''description'', PStr ''Juicy beef patty with cheddar''),
       (''price'', PFloat (nearest_float 8.49)),
       (''category'', PStr ''Burgers''),
       (''image_url'', PStr ''https://images.unsplash.com/photo-1550547660-d9450f859349''),
       (''rating'', PFloat (nearest_float 4.5)),
       (''in_stock'', PBool True)],
      [(''title'', PStr ''Caesar Salad''),
       (''description'', PStr ''Crisp romaine with parmesan''),
       (''price'', PFloat (nearest_float 7.25)),
       (''category'', PStr ''Salads''),
       (''image_url'', PStr ''https://images.unsplash.com/photo-1568605114967-8130f3a36994''),
       (''rating'', PFloat (nearest_float 4.3)),
       (''in_stock'', PBool True)],
      [(''title'', PStr ''Iced Latte''),
       (''description'', PStr ''Chilled espresso with milk''),
       (''price'', PFloat (nearest_float 4.5)),
       (''category'', PStr ''Drinks''),
       (''image_url'', PStr ''https://images.unsplash.com/photo-1541167760496-1628856ab772''),
       (''rating'', PFloat (nearest_float 4.6)),
       (''in_stock'', PBool True)]]"

text \<open>\<^verbatim>\<open>for p in demo: create_document("product", p)\<close>: the first exception ends the loop.\<close>

fun create_each :: "database option \<Rightarrow> string \<Rightarrow> pydict list \<Rightarrow> (pyexn + unit) \<times> database option" where
  "create_each db collection_name [] = (Inr (), db)"
| "create_each db collection_name (p # ps) =
     (case create_document db collection_name p of
        (Inl e, db') \<Rightarrow> (Inl e, db')
      | (Inr new_id, db') \<Rightarrow> create_each db' collection_name ps)"

definition seed_products :: "database option \<Rightarrow> (HTTPException + pydict) \<times> database option" where
  "seed_products db =
     (case get_documents db ''product'' None of
        Inl e \<Rightarrow> (Inl (internal_error e), db)
      | Inr existing \<Rightarrow>
          if existing \<noteq> [] then
            (Inr [(''seeded'', PBool False), (''count'', PInt (int (length existing)))], db)
          else
            (case create_each db ''product'' demo of
               (Inl e, db') \<Rightarrow> (Inl (internal_error e), db')
             | (Inr u, db') \<Rightarrow>
                 (Inr [(''seeded'', PBool True), (''count'', PInt (int (length demo)))], db')))"

subsection \<open>Creating an order\<close>

text \<open>
  \<^verbatim>\<open>computed_subtotal = sum(item.price * item.quantity for item in order.items)\<close>.
  The products are computed item by item, and the first one that raises ends the
  computation.
\<close>

fun item_totals :: "OrderItem list \<Rightarrow> pyexn + pyfloat list" where
  "item_totals [] = Inr []"
| "item_totals (item # rest) =
     (case float_mul_int (price item) (quantity item) of
        Inl e \<Rightarrow> Inl e
      | Inr x \<Rightarrow> (case item_totals rest of Inl e \<Rightarrow> Inl e | Inr xs \<Rightarrow> Inr (x # xs)))"

definition computed_subtotal :: "summation \<Rightarrow> Order \<Rightarrow> pyexn + pyfloat" where
  "computed_subtotal alg ord =
     (case item_totals (items ord) of
        Inl e \<Rightarrow> Inl e
      | Inr xs \<Rightarrow> Inr (py_sum alg xs))"

text \<open>\<^verbatim>\<open>total_calc = order.subtotal + order.tax\<close>\<close>

definition total_calc :: "Order \<Rightarrow> pyfloat" where
  "total_calc ord = float_add (subtotal ord) (tax ord)"

text \<open>
  The two checks raise \<^verbatim>\<open>HTTPException(400)\<close>, which \<^verbatim>\<open>except HTTPException: raise\<close>
  passes on unchanged; any other exception of the body, the \<^verbatim>\<open>OverflowError\<close> of a
  product included, becomes a 500. The literal \<^verbatim>\<open>0.01\<close> is the double nearest to
  \<open>1 / 100\<close>.
\<close>

definition create_order ::
  "summation \<Rightarrow> database option \<Rightarrow> Order \<Rightarrow> (HTTPException + pydict) \<times> database option" where
  "create_order alg db ord =
     (case computed_subtotal alg ord of
        Inl e \<Rightarrow> (Inl (internal_error e), db)
      | Inr cs \<Rightarrow>
          if float_gt (float_abs (float_sub cs (subtotal ord))) (nearest_float 0.01) then
            (Inl (HTTPException 400 ''Subtotal does not match items total''), db)
          else if float_gt (float_abs (float_sub (total_calc ord) (total_amount ord)))
                    (nearest_float 0.01) then
            (Inl (HTTPException 400 ''Total does not match subtotal + tax''), db)
          else
            (case create_document db ''order'' (Order_dump ord) of
               (Inl e, db') \<Rightarrow> (Inl (internal_error e), db')
             | (Inr new_id, db') \<Rightarrow> (Inr [(''id'', PStr new_id)], db')))"

section \<open>Reading the claims\<close>

text \<open>
  What the listing handlers promise for one stored document \<open>stored\<close> and the dict \<open>d\<close>
  returned for it: no \<^verbatim>\<open>_id\<close> any more, \<^verbatim>\<open>id\<close> holding the string form of the
  identifier, and every other key as stored.
\<close>

definition id_replaces_oid :: "ObjectId \<times> pydict \<Rightarrow> pydict \<Rightarrow> bool" where
  "id_replaces_oid stored d \<longleftrightarrow>
     map_of d ''_id'' = None \<and>
     map_of d ''id'' = Some (PStr (str_ObjectId (fst stored))) \<and>
     (\<forall>k. k \<noteq> ''_id'' \<and> k \<noteq> ''id'' \<longrightarrow> map_of d k = map_of (snd stored) k)"

text \<open>
  The two relationships as the spec words them, in exact arithmetic on the numbers of the
  request: \<open>|\<Sigma>(price \<times> qty) - subtotal|\<close> for a list of prices and quantities, and
  \<open>|subtotal + tax - total|\<close>.
\<close>

definition stated_subtotal_deviation :: "(rat \<times> int) list \<Rightarrow> rat \<Rightarrow> rat" where
  "stated_subtotal_deviation its sub = \<bar>(\<Sum>(p, q)\<leftarrow>its. p * of_int q) - sub\<bar>"

definition stated_total_deviation :: "rat \<Rightarrow> rat \<Rightarrow> rat \<Rightarrow> rat" where
  "stated_total_deviation sub tx tot = \<bar>sub + tx - tot\<bar>"

subsection \<open>Example requests and stores\<close>

definition example_item :: "rat \<times> int \<Rightarrow> OrderItem" where
  "example_item pq = OrderItem_init ''p1'' ''Margherita Pizza'' (fst pq) (snd pq) None"

definition example_order ::
  "(rat \<times> int) list \<Rightarrow> rat \<Rightarrow> rat \<Rightarrow> rat \<Rightarrow> string option \<Rightarrow> Order" where
  "example_order its sub tx tot st =
     Order_init ''Ada'' ''ada@example.com'' ''1 Main Street'' (map example_item its) sub tx tot st"

definition empty_db :: database where
  "empty_db = \<lparr>collections = (\<lambda>name. []), next_id = 0\<rparr>"

definition shop_db :: database where
  "shop_db =
     \<lparr>collections = (\<lambda>name. [])
        (''product'' :=
           [(ObjectId 0, [(''title'', PStr ''Margherita Pizza''), (''category'', PStr ''Pizza'')]),
            (ObjectId 1, [(''title'', PStr ''Iced Latte''), (''category'', PStr ''Drinks'')])],
         ''order'' :=
           [(ObjectId 2, [(''customer_name'', PStr ''Ada''), (''status'', PStr ''pending'')])]),
      next_id = 3\<rparr>"

section \<open>Facts about rounding\<close>

lemma floor_rat_divide_numeral [simp]:
  "\<lfloor>numeral a / numeral b :: rat\<rfloor> = numeral a div numeral b"
  by (metis floor_divide_of_int_eq of_int_numeral)

lemma floor_rat_minus_divide_numeral [simp]:
  "\<lfloor>- (numeral a / numeral b) :: rat\<rfloor> = - numeral a div numeral b"
  by (metis divide_minus_left floor_divide_of_int_eq of_int_neg_numeral of_int_numeral)

lemma floor_rat_one_divide_numeral [simp]:
  "\<lfloor>1 / numeral b :: rat\<rfloor> = 1 div numeral b"
  by (metis floor_divide_of_int_eq of_int_1 of_int_numeral)

lemma floor_rat_minus_one_divide_numeral [simp]:
  "\<lfloor>- (1 / numeral b) :: rat\<rfloor> = - 1 div numeral b"
  by (metis (mono_tags, opaque_lifting) div_minus_right minus_divide_right
      floor_divide_of_int_eq of_int_neg_numeral of_int_1)

lemma floor_bitlen_bounds:
  fixes a :: rat
  assumes "1 \<le> a"
  shows "2 powi (bitlen \<lfloor>a\<rfloor> - 1) \<le> a" "a < 2 powi (bitlen \<lfloor>a\<rfloor>)"
proof -
  let ?n = "\<lfloor>a\<rfloor>"
  have n: "0 < ?n" using assms by simp
  from bitlen_bounds [OF n]
  have lo: "2 ^ nat (bitlen ?n - 1) \<le> ?n" and hi: "?n < 2 ^ nat (bitlen ?n)"
    by auto
  have b1: "1 \<le> bitlen ?n" using n by (auto simp: bitlen_alt_def)
  have "(2::rat) powi (bitlen ?n - 1) = 2 ^ nat (bitlen ?n - 1)"
    using b1 by (simp add: power_int_def)
  also have "\<dots> = of_int (2 ^ nat (bitlen ?n - 1))" by simp
  also have "\<dots> \<le> of_int ?n" using lo by (simp only: of_int_le_iff)
  also have "\<dots> \<le> a" by simp
  finally show "2 powi (bitlen \<lfloor>a\<rfloor> - 1) \<le> a" .
  have "?n + 1 \<le> 2 ^ nat (bitlen ?n)" using hi by simp
  then have "(of_int (?n + 1) :: rat) \<le> of_int (2 ^ nat (bitlen ?n))"
    by (simp only: of_int_le_iff)
  moreover have "a < of_int (?n + 1)" by linarith
  moreover have "(2::rat) powi (bitlen ?n) = of_int (2 ^ nat (bitlen ?n))"
    using b1 by (simp add: power_int_def)
  ultimately show "a < 2 powi (bitlen \<lfloor>a\<rfloor>)" by simp
qed

lemma powi_neg: "(2::rat) powi (- k) = 1 / 2 powi k"
  by (simp add: power_int_minus inverse_eq_divide)

lemma powi_neg_pred: "(2::rat) powi (- k - 1) = 1 / 2 powi (k + 1)"
proof -
  have "- k - 1 = - (k + 1)" by simp
  then show ?thesis by (simp only: powi_neg)
qed

lemma powi_mono: "e \<le> e' \<Longrightarrow> (2::rat) powi e \<le> 2 powi e'"
  by (simp add: power_int_increasing)

text \<open>The exponent that \<open>float_exponent\<close> computes is the binary exponent.\<close>

lemma float_exponent_bounds:
  assumes "x \<noteq> 0"
  shows "2 powi (float_exponent x) \<le> \<bar>x\<bar>" "\<bar>x\<bar> < 2 powi (float_exponent x + 1)"
proof -
  define a where "a = \<bar>x\<bar>"
  have pos: "0 < a" using assms by (simp add: a_def)
  have "2 powi (float_exponent x) \<le> a \<and> a < 2 powi (float_exponent x + 1)"
  proof (cases "1 \<le> a")
    case True
    from floor_bitlen_bounds [OF True] True show ?thesis
      by (simp add: float_exponent_def a_def)
  next
    case False
    define y where "y = 1 / a"
    define k where "k = bitlen \<lfloor>y\<rfloor> - 1"
    have y: "1 \<le> y" using False pos by (simp add: y_def field_simps)
    from floor_bitlen_bounds [OF y] have lo: "2 powi k \<le> y" and hi: "y < 2 powi (k + 1)"
      by (simp_all add: k_def)
    have p0: "(0::rat) < 2 powi k" "(0::rat) < 2 powi (k + 1)" by simp_all
    have a_le: "a \<le> 2 powi (- k)"
      unfolding powi_neg using lo pos p0 by (simp add: y_def field_simps)
    have a_gt: "2 powi (- k - 1) < a"
      unfolding powi_neg_pred using hi pos p0 by (simp add: y_def field_simps)
    have fe: "float_exponent x = (if a * 2 powi k = 1 then - k else - k - 1)"
      using False by (simp add: float_exponent_def Let_def a_def k_def y_def)
    show ?thesis
    proof (cases "a * 2 powi k = 1")
      case True
      then have eq: "a = 2 powi (- k)"
        unfolding powi_neg using p0 by (simp add: field_simps)
      have "(2::rat) powi (- k) < 2 powi (- k + 1)"
        by (intro power_int_strict_increasing) simp_all
      with eq fe True show ?thesis by simp
    next
      case neq: False
      have "a \<noteq> 2 powi (- k)"
        unfolding powi_neg using neq p0 by (simp add: field_simps)
      with a_le have "a < 2 powi (- k)" by simp
      with a_gt fe neq show ?thesis by simp
    qed
  qed
  then show "2 powi (float_exponent x) \<le> \<bar>x\<bar>" "\<bar>x\<bar> < 2 powi (float_exponent x + 1)"
    by (simp_all add: a_def)
qed

lemma float_exponent_unique:
  assumes "2 powi e \<le> \<bar>x\<bar>" and "\<bar>x\<bar> < 2 powi (e + 1)"
  shows "float_exponent x = e"
proof -
  have "\<not> (2::rat) powi e \<le> 0" by (simp add: not_le)
  with assms(1) have nz: "x \<noteq> 0" by auto
  note b = float_exponent_bounds [OF nz]
  have "\<not> float_exponent x < e"
  proof
    assume "float_exponent x < e"
    then have "(2::rat) powi (float_exponent x + 1) \<le> 2 powi e" by (intro powi_mono) simp
    with b(2) assms(1) show False by simp
  qed
  moreover have "\<not> e < float_exponent x"
  proof
    assume "e < float_exponent x"
    then have "(2::rat) powi (e + 1) \<le> 2 powi (float_exponent x)" by (intro powi_mono) simp
    with b(1) assms(2) show False by simp
  qed
  ultimately show ?thesis by simp
qed

text \<open>
  A rounding is checked from its exponent \<open>e\<close>, the exponent \<open>p\<close> of the spacing and the
  rounded significand \<open>m\<close>: the three side conditions are computations on numerals.
\<close>

lemma round_to_double_certificate:
  assumes "2 powi e \<le> \<bar>x\<bar>" and "\<bar>x\<bar> < 2 powi (e + 1)"
    and "p = max (e - 52) (- 1074)"
    and "round_half_even (x / 2 powi p) = m"
  shows "round_to_double x = of_int m * 2 powi p"
proof -
  have "\<not> (2::rat) powi e \<le> 0" by (simp add: not_le)
  with assms(1) have nz: "x \<noteq> 0" by auto
  show ?thesis
    using nz assms(3,4) float_exponent_unique [OF assms(1,2)]
    by (simp add: round_to_double_def Let_def)
qed

lemma nearest_float_certificate:
  assumes "2 powi e \<le> \<bar>x\<bar>" and "\<bar>x\<bar> < 2 powi (e + 1)"
    and "p = max (e - 52) (- 1074)"
    and "round_half_even (x / 2 powi p) = m"
    and "r = of_int m * 2 powi p"
    and "\<bar>r\<bar> < 2 ^ 1024"
  shows "nearest_float x = Finite r"
proof -
  have "round_to_double x = r"
    using round_to_double_certificate [OF assms(1-4)] assms(5) by simp
  with assms(6) show ?thesis
    by (auto simp add: nearest_float_def Let_def)
qed

lemma nearest_float_overflow:
  assumes "2 powi e \<le> \<bar>x\<bar>" and "\<bar>x\<bar> < 2 powi (e + 1)"
    and "p = max (e - 52) (- 1074)"
    and "round_half_even (x / 2 powi p) = m"
    and "2 ^ 1024 \<le> of_int m * (2::rat) powi p"
  shows "nearest_float x = PosInf"
  using round_to_double_certificate [OF assms(1-4)] assms(5)
  by (simp add: nearest_float_def Let_def)

lemma nearest_float_0 [simp]: "nearest_float 0 = Finite 0"
  by (simp add: nearest_float_def round_to_double_def)

text \<open>No float is greater than itself, NaN and the infinities included.\<close>

lemma float_gt_irrefl [simp]: "\<not> float_gt x x"
  by (cases x) simp_all

subsection \<open>The roundings of the examples\<close>

lemma rounding_1: "nearest_float (- (5184769071010283 / 562949953421312)) = Finite (- (5184769071010283 / 562949953421312))"
  by (rule nearest_float_certificate [where e = 3 and p = "- 49" and m = "- 5184769071010283"])
    (simp_all add: round_half_even_def Let_def power_int_minus)

lemma rounding_2: "nearest_float (- (9 / 4)) = Finite (- (9 / 4))"
  by (rule nearest_float_certificate [where e = 1 and p = "- 51" and m = "- 5066549580791808"])
    (simp_all add: round_half_even_def Let_def power_int_minus)

lemma rounding_3: "nearest_float (- (3 / 2)) = Finite (- (3 / 2))"
  by (rule nearest_float_certificate [where e = 0 and p = "- 52" and m = "- 6755399441055744"])
    (simp_all add: round_half_even_def Let_def power_int_minus)

lemma rounding_4: "nearest_float (- (5764607523034235 / 576460752303423488)) = Finite (- (5764607523034235 / 576460752303423488))"
  by (rule nearest_float_certificate [where e = "- 7" and p = "- 59" and m = "- 5764607523034235"])
    (simp_all add: round_half_even_def Let_def power_int_minus)

lemma rounding_5: "nearest_float (1 / 562949953421312) = Finite (1 / 562949953421312)"
  by (rule nearest_float_certificate [where e = "- 49" and p = "- 101" and m = 4503599627370496])
    (simp_all add: round_half_even_def Let_def power_int_minus)

lemma rounding_6: "nearest_float (1 / 100) = Finite (5764607523034235 / 576460752303423488)"
  by (rule nearest_float_certificate [where e = "- 7" and p = "- 59" and m = 5764607523034235])
    (simp_all add: round_half_even_def Let_def power_int_minus)

lemma rounding_7: "nearest_float (5764607523034235 / 576460752303423488) = Finite (5764607523034235 / 576460752303423488)"
  by (rule nearest_float_certificate [where e = "- 7" and p = "- 59" and m = 5764607523034235])
    (simp_all add: round_half_even_def Let_def power_int_minus)

lemma rounding_8: "nearest_float (45035996273705 / 4503599627370496) = Finite (45035996273705 / 4503599627370496)"
  by (rule nearest_float_certificate [where e = "- 7" and p = "- 59" and m = 5764607523034240])
    (simp_all add: round_half_even_def Let_def power_int_minus)

lemma rounding_9: "nearest_float (2814749767107 / 281474976710656) = Finite (2814749767107 / 281474976710656)"
  by (rule nearest_float_certificate [where e = "- 7" and p = "- 59" and m = 5764607523035136])
    (simp_all add: round_half_even_def Let_def power_int_minus)

lemma rounding_10: "nearest_float (1 / 50) = Finite (5764607523034235 / 288230376151711744)"
  by (rule nearest_float_certificate [where e = "- 6" and p = "- 58" and m = 5764607523034235])
    (simp_all add: round_half_even_def Let_def power_int_minus)

lemma rounding_11: "nearest_float (3 / 50) = Finite (1080863910568919 / 18014398509481984)"
  by (rule nearest_float_certificate [where e = "- 5" and p = "- 57" and m = 8646911284551352])
    (simp_all add: round_half_even_def Let_def power_int_minus)

lemma rounding_12: "nearest_float (7 / 100) = Finite (1261007895663739 / 18014398509481984)"
  by (rule nearest_float_certificate [where e = "- 4" and p = "- 56" and m = 5044031582654956])
    (simp_all add: round_half_even_def Let_def power_int_minus)

lemma rounding_13: "nearest_float (1261007895663739 / 18014398509481984) = Finite (1261007895663739 / 18014398509481984)"
  by (rule nearest_float_certificate [where e = "- 4" and p = "- 56" and m = 5044031582654956])
    (simp_all add: round_half_even_def Let_def power_int_minus)

lemma rounding_14: "nearest_float (1 / 4) = Finite (1 / 4)"
  by (rule nearest_float_certificate [where e = "- 2" and p = "- 54" and m = 4503599627370496])
    (simp_all add: round_half_even_def Let_def power_int_minus)

lemma rounding_15: "nearest_float (1 / 2) = Finite (1 / 2)"
  by (rule nearest_float_certificate [where e = "- 1" and p = "- 53" and m = 4503599627370496])
    (simp_all add: round_half_even_def Let_def power_int_minus)

lemma rounding_16: "nearest_float (4 / 5) = Finite (3602879701896397 / 4503599627370496)"
  by (rule nearest_float_certificate [where e = "- 1" and p = "- 53" and m = 7205759403792794])
    (simp_all add: round_half_even_def Let_def power_int_minus)

lemma rounding_17: "nearest_float 1 = Finite 1"
  by (rule nearest_float_certificate [where e = 0 and p = "- 52" and m = 4503599627370496])
    (simp_all add: round_half_even_def Let_def power_int_minus)

lemma rounding_18: "nearest_float (3 / 2) = Finite (3 / 2)"
  by (rule nearest_float_certificate [where e = 0 and p = "- 52" and m = 6755399441055744])
    (simp_all add: round_half_even_def Let_def power_int_minus)

lemma rounding_19: "nearest_float 2 = Finite 2"
  by (rule nearest_float_certificate [where e = 1 and p = "- 51" and m = 4503599627370496])
    (simp_all add: round_half_even_def Let_def power_int_minus)

lemma rounding_20: "nearest_float (9 / 4) = Finite (9 / 4)"
  by (rule nearest_float_certificate [where e = 1 and p = "- 51" and m = 5066549580791808])
    (simp_all add: round_half_even_def Let_def power_int_minus)

lemma rounding_21: "nearest_float 3 = Finite 3"
  by (rule nearest_float_certificate [where e = 1 and p = "- 51" and m = 6755399441055744])
    (simp_all add: round_half_even_def Let_def power_int_minus)

lemma rounding_22: "nearest_float 5 = Finite 5"
  by (rule nearest_float_certificate [where e = 2 and p = "- 50" and m = 5629499534213120])
    (simp_all add: round_half_even_def Let_def power_int_minus)

lemma rounding_23: "nearest_float (21 / 4) = Finite (21 / 4)"
  by (rule nearest_float_certificate [where e = 2 and p = "- 50" and m = 5910974510923776])
    (simp_all add: round_half_even_def Let_def power_int_minus)

lemma rounding_24: "nearest_float (11 / 2) = Finite (11 / 2)"
  by (rule nearest_float_certificate [where e = 2 and p = "- 50" and m = 6192449487634432])
    (simp_all add: round_half_even_def Let_def power_int_minus)

lemma rounding_25: "nearest_float 7 = Finite 7"
  by (rule nearest_float_certificate [where e = 2 and p = "- 50" and m = 7881299347898368])
    (simp_all add: round_half_even_def Let_def power_int_minus)

lemma rounding_26: "nearest_float (999 / 100) = Finite (5623870034678907 / 562949953421312)"
  by (rule nearest_float_certificate [where e = 3 and p = "- 49" and m = 5623870034678907])
    (simp_all add: round_half_even_def Let_def power_int_minus)

lemma rounding_27: "nearest_float (5623870034678907 / 562949953421312) = Finite (5623870034678907 / 562949953421312)"
  by (rule nearest_float_certificate [where e = 3 and p = "- 49" and m = 5623870034678907])
    (simp_all add: round_half_even_def Let_def power_int_minus)

lemma rounding_28: "nearest_float (539 / 50) = Finite (6068600497881743 / 562949953421312)"
  by (rule nearest_float_certificate [where e = 3 and p = "- 49" and m = 6068600497881743])
    (simp_all add: round_half_even_def Let_def power_int_minus)

lemma rounding_29: "nearest_float (1079 / 100) = Finite (1518557499353989 / 140737488355328)"
  by (rule nearest_float_certificate [where e = 3 and p = "- 49" and m = 6074229997415956])
    (simp_all add: round_half_even_def Let_def power_int_minus)

lemma rounding_30: "nearest_float (48593839979327653 / 4503599627370496) = Finite (6074229997415957 / 562949953421312)"
  by (rule nearest_float_certificate [where e = 3 and p = "- 49" and m = 6074229997415957])
    (simp_all add: round_half_even_def Let_def power_int_minus)

lemma rounding_31: "nearest_float (5623870034678907 / 281474976710656) = Finite (5623870034678907 / 281474976710656)"
  by (rule nearest_float_certificate [where e = 4 and p = "- 48" and m = 5623870034678907])
    (simp_all add: round_half_even_def Let_def power_int_minus)

lemma rounding_32: "nearest_float 20 = Finite 20"
  by (rule nearest_float_certificate [where e = 4 and p = "- 48" and m = 5629499534213120])
    (simp_all add: round_half_even_def Let_def power_int_minus)

lemma rounding_33: "nearest_float 10000000000000000 = Finite 10000000000000000"
  by (rule nearest_float_certificate [where e = 53 and p = 1 and m = 5000000000000000])
    (simp_all add: round_half_even_def Let_def power_int_minus)

lemma rounding_34: "nearest_float 10000000000000001 = Finite 10000000000000000"
  by (rule nearest_float_certificate [where e = 53 and p = 1 and m = 5000000000000000])
    (simp_all add: round_half_even_def Let_def power_int_minus)

lemma rounding_35: "nearest_float 1000000000000000000000000000000000000000000000000000000000000000000000000000000000000000000000000000000000000000000000000000000000000000000000000000000000000000000000000000000000000000000000000000000000000000000000000000000000000000000000000000000000000000000000000000000000000000000000000000000000000000000000 = PosInf"
  by (rule nearest_float_overflow [where e = 1026 and p = 974 and m = 6263026125028040])
    (simp_all add: round_half_even_def Let_def power_int_minus)

lemmas roundings =
  rounding_1 rounding_2 rounding_3 rounding_4 rounding_5 rounding_6
  rounding_7 rounding_8 rounding_9 rounding_10 rounding_11 rounding_12
  rounding_13 rounding_14 rounding_15 rounding_16 rounding_17 rounding_18
  rounding_19 rounding_20 rounding_21 rounding_22 rounding_23 rounding_24
  rounding_25 rounding_26 rounding_27 rounding_28 rounding_29 rounding_30
  rounding_31 rounding_32 rounding_33 rounding_34 rounding_35


text \<open>Two of them in words: \<^verbatim>\<open>1e16 + 1.0\<close> is \<^verbatim>\<open>1e16\<close>, and \<^verbatim>\<open>9.99 + 0.8\<close> is not
  the double of \<^verbatim>\<open>10.79\<close> but the next one.\<close>

lemma float_add_absorbs:
  "float_add (nearest_float (10 ^ 16)) (nearest_float 1) = nearest_float (10 ^ 16)"
  by (simp add: roundings)

lemma float_add_decimals:
  "float_sub (float_add (nearest_float 9.99) (nearest_float 0.80)) (nearest_float 10.79) =
     Finite (1 / 2 ^ 49)"
  by (simp add: float_sub_def roundings)

section \<open>Auxiliary facts\<close>

lemmas evaluation =
  computed_subtotal_def total_calc_def py_sum_def float_mul_int_def float_of_int_def
  float_sub_def example_order_def example_item_def Order_init_def OrderItem_init_def Let_def
  Order_constraints_def OrderItem_constraints_def
  stated_subtotal_deviation_def stated_total_deviation_def
  roundings

lemma example_order_status:
  "status (example_order its sub tx tot None) = ''pending''"
  "status (example_order its sub tx tot (Some s)) = s"
  by (simp_all add: example_order_def Order_init_def)

lemma Order_init_status:
  "status (Order_init name email address its sub tx tot None) = ''pending''"
  "status (Order_init name email address its sub tx tot (Some st)) = st"
  by (simp_all add: Order_init_def)

lemma next_id_empty_db: "next_id empty_db = 0"
  by (simp add: empty_db_def)

lemma shop_db_collections:
  "collections shop_db ''product'' =
     [(ObjectId 0, [(''title'', PStr ''Margherita Pizza''), (''category'', PStr ''Pizza'')]),
      (ObjectId 1, [(''title'', PStr ''Iced Latte''), (''category'', PStr ''Drinks'')])]"
  "collections shop_db ''order'' =
     [(ObjectId 2, [(''customer_name'', PStr ''Ada''), (''status'', PStr ''pending'')])]"
  by (simp_all add: shop_db_def)

lemma str_ObjectId_0: "str_ObjectId (ObjectId 0) = ''000000000000000000000000''"
  by code_simp

subsection \<open>The store helpers on a connected store\<close>

lemma create_document_connected:
  "create_document (Some s) name data =
     (Inr (str_ObjectId (ObjectId (next_id s))), Some (inserted s name data))"
  by (simp add: create_document_def)

lemma get_documents_connected:
  "get_documents (Some s) name filter_dict =
     Inr (map as_dict
            (filter (\<lambda>st. matches (case filter_dict of None \<Rightarrow> [] | Some f \<Rightarrow> f) (as_dict st))
               (collections s name)))"
  by (simp add: get_documents_def filter_map comp_def)

lemma matches_empty: "matches [] d"
  by (simp add: matches_def)

lemma matches_category:
  "matches [(''category'', PStr c)] (as_dict st) \<longleftrightarrow> map_of (snd st) ''category'' = Some (PStr c)"
  by (cases st) (simp add: matches_def)

lemma collections_inserted:
  "collections (inserted s name p) name' =
     (if name' = name then collections s name @ [(ObjectId (next_id s), p)]
      else collections s name')"
  by (simp add: inserted_def)

lemma create_each_connected:
  "create_each (Some s) name ps = (Inr (), Some (fold (\<lambda>p t. inserted t name p) ps s))"
  by (induction ps arbitrary: s) (simp_all add: create_document_connected)

lemma collections_fold_inserted_other:
  "name' \<noteq> name \<Longrightarrow>
     collections (fold (\<lambda>p t. inserted t name p) ps s) name' = collections s name'"
  by (induction ps arbitrary: s) (simp_all add: collections_inserted)

lemma collections_fold_inserted:
  "map snd (collections (fold (\<lambda>p t. inserted t name p) ps s) name) =
     map snd (collections s name) @ ps"
  by (induction ps arbitrary: s) (simp_all add: collections_inserted)

lemma length_demo: "length demo = 4"
  by (simp add: demo_def)

subsection \<open>The identifier loop\<close>

lemma id_from_oid_as_dict:
  "id_from_oid (as_dict (oid, rest)) =
     Inr (dict_set (AList.delete ''_id'' rest) ''id'' (PStr (str_ObjectId oid)))"
  by (simp add: id_from_oid_def dict_pop_def)

lemma id_replaces_oid_dict_set:
  "id_replaces_oid (oid, rest)
     (dict_set (AList.delete ''_id'' rest) ''id'' (PStr (str_ObjectId oid)))"
  by (simp add: id_replaces_oid_def dict_set_def update_conv' delete_conv')

lemma ids_from_oids_as_dict:
  "\<exists>docs. ids_from_oids (map as_dict sts) = Inr docs \<and> list_all2 id_replaces_oid sts docs"
proof (induction sts)
  case Nil
  show ?case by simp
next
  case (Cons st sts)
  obtain oid rest where st: "st = (oid, rest)" by (cases st)
  from Cons obtain docs where docs: "ids_from_oids (map as_dict sts) = Inr docs"
    "list_all2 id_replaces_oid sts docs" by blast
  show ?case
    unfolding st using docs
    by (simp add: id_from_oid_as_dict id_replaces_oid_dict_set del: as_dict.simps)
qed

lemma list_all2_into_set:
  "list_all2 P xs ys \<Longrightarrow> \<forall>y\<in>set ys. \<exists>x\<in>set xs. P x y"
  by (induction rule: list_all2_induct) auto

subsection \<open>The handlers on a connected store\<close>

lemma list_orders_connected:
  "\<exists>docs. list_orders (Some s) = Inr docs \<and>
     list_all2 id_replaces_oid (collections s ''order'') docs"
proof -
  obtain docs where "ids_from_oids (map as_dict (collections s ''order'')) = Inr docs"
    "list_all2 id_replaces_oid (collections s ''order'') docs"
    using ids_from_oids_as_dict by blast
  then show ?thesis
    by (simp add: list_orders_def get_documents_connected matches_empty)
qed

lemma list_products_all:
  assumes "category = None \<or> category = Some []"
  shows "\<exists>docs. list_products (Some s) category = Inr docs \<and>
           list_all2 id_replaces_oid (collections s ''product'') docs"
proof -
  obtain docs where "ids_from_oids (map as_dict (collections s ''product'')) = Inr docs"
    "list_all2 id_replaces_oid (collections s ''product'') docs"
    using ids_from_oids_as_dict by blast
  then show ?thesis
    using assms by (auto simp add: list_products_def get_documents_connected matches_empty)
qed

lemma list_products_category:
  assumes "c \<noteq> []"
  shows "\<exists>docs. list_products (Some s) (Some c) = Inr docs \<and>
           list_all2 id_replaces_oid
             (filter (\<lambda>st. map_of (snd st) ''category'' = Some (PStr c))
                (collections s ''product''))
             docs"
proof -
  let ?sel = "filter (\<lambda>st. map_of (snd st) ''category'' = Some (PStr c))
                (collections s ''product'')"
  obtain docs where "ids_from_oids (map as_dict ?sel) = Inr docs"
    "list_all2 id_replaces_oid ?sel docs"
    using ids_from_oids_as_dict by blast
  then show ?thesis
    using assms by (simp add: list_products_def get_documents_connected matches_category)
qed

lemma list_products_pizza:
  "list_products (Some shop_db) (Some ''Pizza'') =
     Inr [[(''title'', PStr ''Margherita Pizza''), (''category'', PStr ''Pizza''),
           (''id'', PStr (str_ObjectId (ObjectId 0)))]]"
  by (simp add: list_products_def get_documents_def shop_db_def matches_def id_from_oid_def
      dict_pop_def dict_set_def)

lemma list_orders_shop:
  "list_orders (Some shop_db) =
     Inr [[(''customer_name'', PStr ''Ada''), (''status'', PStr ''pending''),
           (''id'', PStr (str_ObjectId (ObjectId 2)))]]"
  by (simp add: list_orders_def get_documents_def shop_db_def matches_def id_from_oid_def
      dict_pop_def dict_set_def)

subsection \<open>The handler on the example orders\<close>

text \<open>The spec's first example, with any status: accepted.\<close>

lemma create_order_example:
  "create_order alg (Some s) (example_order [(9.99, 1)] 9.99 0.80 10.79 st) =
     (Inr [(''id'', PStr (str_ObjectId (ObjectId (next_id s))))],
      Some (inserted s ''order'' (Order_dump (example_order [(9.99, 1)] 9.99 0.80 10.79 st))))"
  by (cases alg) (simp_all add: create_order_def create_document_connected evaluation)

lemma Order_constraints_example:
  "Order_constraints (example_order [(9.99, 1)] 9.99 0.80 10.79 st)"
  by (simp add: evaluation)

text \<open>Rounding hides a deviation of 1 at the magnitude of \<open>10 ^ 16\<close>.\<close>

lemma create_order_large_items:
  "create_order alg (Some s) (example_order [(10 ^ 16, 1), (1, 1)] (10 ^ 16) 0 (10 ^ 16) None) =
     (Inr [(''id'', PStr (str_ObjectId (ObjectId (next_id s))))],
      Some (inserted s ''order''
         (Order_dump (example_order [(10 ^ 16, 1), (1, 1)] (10 ^ 16) 0 (10 ^ 16) None))))"
  by (cases alg) (simp_all add: create_order_def create_document_connected evaluation)

lemma create_order_large_tax:
  "create_order alg (Some s) (example_order [(10 ^ 16, 1)] (10 ^ 16) 1 (10 ^ 16) None) =
     (Inr [(''id'', PStr (str_ObjectId (ObjectId (next_id s))))],
      Some (inserted s ''order''
         (Order_dump (example_order [(10 ^ 16, 1)] (10 ^ 16) 1 (10 ^ 16) None))))"
  by (cases alg) (simp_all add: create_order_def create_document_connected evaluation)

lemma create_order_large_both:
  "create_order alg (Some s) (example_order [(10 ^ 16, 1), (1, 1)] (10 ^ 16) 1 (10 ^ 16) None) =
     (Inr [(''id'', PStr (str_ObjectId (ObjectId (next_id s))))],
      Some (inserted s ''order''
         (Order_dump (example_order [(10 ^ 16, 1), (1, 1)] (10 ^ 16) 1 (10 ^ 16) None))))"
  by (cases alg) (simp_all add: create_order_def create_document_connected evaluation)

text \<open>A quantity beyond the range of the doubles: the product raises, the handler answers
  500, also when the price is 0.\<close>

lemma create_order_huge_quantity:
  "create_order alg db (example_order [(1, 10 ^ 309)] 0 0 0 None) =
     (Inl (HTTPException 500 ''int too large to convert to float''), db)"
  by (cases alg) (simp_all add: create_order_def internal_error_def evaluation)

lemma create_order_huge_quantity_free:
  "create_order alg db (example_order [(0, 10 ^ 309)] 0 0 5 None) =
     (Inl (HTTPException 500 ''int too large to convert to float''), db)"
  by (cases alg) (simp_all add: create_order_def internal_error_def evaluation)

text \<open>\<^verbatim>\<open>abs(9.99 + 0.8 - 10.78)\<close> is a double above \<^verbatim>\<open>0.01\<close>.\<close>

lemma create_order_decimal_boundary:
  "create_order alg db (example_order [(9.99, 1)] 9.99 0.80 10.78 None) =
     (Inl (HTTPException 400 ''Total does not match subtotal + tax''), db)"
  by (cases alg) (simp_all add: create_order_def evaluation)

text \<open>So is \<^verbatim>\<open>abs(0.07 - 0.06)\<close>.\<close>

lemma create_order_decimal_boundary_subtotal:
  "create_order alg db (example_order [(0.07, 1)] 0.06 0 0.06 None) =
     (Inl (HTTPException 400 ''Subtotal does not match items total''), db)"
  by (cases alg) (simp_all add: create_order_def evaluation)

section \<open>Order consistency\<close>

text \<open>
  C1, as amended. The claim speaks of the exact deviation of the item sum from the declared
  subtotal; the handler tests the deviation it computes in floats. Whenever the computation
  of the item sum completes with a float \<open>cs\<close> and \<^verbatim>\<open>abs(cs - subtotal) > 0.01\<close> holds
  in float arithmetic, the order is refused with the subtotal-mismatch error, status 400,
  and the store is returned as it was, connected or not.
\<close>

theorem create_order_subtotal_mismatch:
  assumes "computed_subtotal alg ord = Inr cs"
    and "float_gt (float_abs (float_sub cs (subtotal ord))) (nearest_float 0.01)"
  shows "create_order alg db ord =
           (Inl (HTTPException 400 ''Subtotal does not match items total''), db)"
  using assms by (simp add: create_order_def)

text \<open>The example of the spec: one item at 9.99 ordered twice, declared subtotal 9.99.\<close>

theorem create_order_subtotal_mismatch_witness:
  "Order_constraints (example_order [(9.99, 2)] 9.99 0 9.99 None) \<and>
   (\<exists>cs. computed_subtotal Sequential (example_order [(9.99, 2)] 9.99 0 9.99 None) = Inr cs \<and>
      float_gt (float_abs (float_sub cs (subtotal (example_order [(9.99, 2)] 9.99 0 9.99 None))))
        (nearest_float 0.01)) \<and>
   create_order Sequential (Some empty_db) (example_order [(9.99, 2)] 9.99 0 9.99 None) =
     (Inl (HTTPException 400 ''Subtotal does not match items total''), Some empty_db)"
proof -
  let ?ord = "example_order [(9.99, 2)] 9.99 0 9.99 None"
  have ok: "Order_constraints ?ord"
    by (simp add: evaluation)
  have cs: "computed_subtotal Sequential ?ord = Inr (Finite (5623870034678907 / 281474976710656))"
    by (simp add: evaluation)
  have gt: "float_gt (float_abs (float_sub (Finite (5623870034678907 / 281474976710656))
              (subtotal ?ord))) (nearest_float 0.01)"
    by (simp add: evaluation)
  from create_order_subtotal_mismatch [OF cs gt, of "Some empty_db"] ok cs gt
  show ?thesis by blast
qed

text \<open>
  C1, as stated, fails: the items 1e16 and 1.0 against the declared subtotal 1e16 deviate by
  exactly 1, yet \<^verbatim>\<open>1e16 + 1.0\<close> is \<^verbatim>\<open>1e16\<close> in floats, and the order is accepted and
  stored.
\<close>

theorem create_order_subtotal_mismatch_counterexample:
  "Order_constraints (example_order [(10 ^ 16, 1), (1, 1)] (10 ^ 16) 0 (10 ^ 16) None) \<and>
   stated_subtotal_deviation [(10 ^ 16, 1), (1, 1)] (10 ^ 16) > 0.01 \<and>
   create_order Sequential (Some empty_db)
       (example_order [(10 ^ 16, 1), (1, 1)] (10 ^ 16) 0 (10 ^ 16) None) =
     (Inr [(''id'', PStr ''000000000000000000000000'')],
      Some (inserted empty_db ''order''
         (Order_dump (example_order [(10 ^ 16, 1), (1, 1)] (10 ^ 16) 0 (10 ^ 16) None)))) \<and>
   create_order Compensated (Some empty_db)
       (example_order [(10 ^ 16, 1), (1, 1)] (10 ^ 16) 0 (10 ^ 16) None) =
     (Inr [(''id'', PStr ''000000000000000000000000'')],
      Some (inserted empty_db ''order''
         (Order_dump (example_order [(10 ^ 16, 1), (1, 1)] (10 ^ 16) 0 (10 ^ 16) None))))"
proof -
  note accepted = create_order_large_items [of _ empty_db, unfolded next_id_empty_db str_ObjectId_0]
  have "Order_constraints (example_order [(10 ^ 16, 1), (1, 1)] (10 ^ 16) 0 (10 ^ 16) None)"
    by (simp add: evaluation)
  moreover have "stated_subtotal_deviation [(10 ^ 16, 1), (1, 1)] (10 ^ 16) > 0.01"
    by (simp add: evaluation)
  ultimately show ?thesis
    using accepted [of Sequential] accepted [of Compensated] by blast
qed

text \<open>
  C2, as amended. Whenever the item sum is computed, the subtotal check passes and
  \<^verbatim>\<open>abs(subtotal + tax - total) > 0.01\<close> holds in float arithmetic, the order is
  refused with the total-mismatch error, status 400, and the store is returned as it was.
\<close>

theorem create_order_total_mismatch:
  assumes "computed_subtotal alg ord = Inr cs"
    and "\<not> float_gt (float_abs (float_sub cs (subtotal ord))) (nearest_float 0.01)"
    and "float_gt (float_abs (float_sub (float_add (subtotal ord) (tax ord)) (total_amount ord)))
           (nearest_float 0.01)"
  shows "create_order alg db ord =
           (Inl (HTTPException 400 ''Total does not match subtotal + tax''), db)"
  using assms by (simp add: create_order_def total_calc_def)

theorem create_order_total_mismatch_witness:
  "Order_constraints (example_order [(9.99, 1)] 9.99 0.80 20 None) \<and>
   (\<exists>cs. computed_subtotal Sequential (example_order [(9.99, 1)] 9.99 0.80 20 None) = Inr cs \<and>
      \<not> float_gt (float_abs (float_sub cs (subtotal (example_order [(9.99, 1)] 9.99 0.80 20 None))))
          (nearest_float 0.01)) \<and>
   create_order Sequential (Some empty_db) (example_order [(9.99, 1)] 9.99 0.80 20 None) =
     (Inl (HTTPException 400 ''Total does not match subtotal + tax''), Some empty_db)"
proof -
  let ?ord = "example_order [(9.99, 1)] 9.99 0.80 20 None"
  have ok: "Order_constraints ?ord"
    by (simp add: evaluation)
  have cs: "computed_subtotal Sequential ?ord = Inr (Finite (5623870034678907 / 562949953421312))"
    by (simp add: evaluation)
  have le: "\<not> float_gt (float_abs (float_sub (Finite (5623870034678907 / 562949953421312))
              (subtotal ?ord))) (nearest_float 0.01)"
    by (simp add: evaluation)
  have gt: "float_gt (float_abs (float_sub (float_add (subtotal ?ord) (tax ?ord))
              (total_amount ?ord))) (nearest_float 0.01)"
    by (simp add: evaluation)
  from create_order_total_mismatch [OF cs le gt, of "Some empty_db"] ok cs le
  show ?thesis by blast
qed

text \<open>
  C2, as stated, fails: with subtotal 1e16, tax 1.0 and total 1e16 the subtotal agrees and
  \<open>subtotal + tax\<close> deviates from the total by exactly 1, yet the order is accepted and
  stored.
\<close>

theorem create_order_total_mismatch_counterexample:
  "Order_constraints (example_order [(10 ^ 16, 1)] (10 ^ 16) 1 (10 ^ 16) None) \<and>
   stated_subtotal_deviation [(10 ^ 16, 1)] (10 ^ 16) = 0 \<and>
   stated_total_deviation (10 ^ 16) 1 (10 ^ 16) > 0.01 \<and>
   create_order Sequential (Some empty_db)
       (example_order [(10 ^ 16, 1)] (10 ^ 16) 1 (10 ^ 16) None) =
     (Inr [(''id'', PStr ''000000000000000000000000'')],
      Some (inserted empty_db ''order''
         (Order_dump (example_order [(10 ^ 16, 1)] (10 ^ 16) 1 (10 ^ 16) None)))) \<and>
   create_order Compensated (Some empty_db)
       (example_order [(10 ^ 16, 1)] (10 ^ 16) 1 (10 ^ 16) None) =
     (Inr [(''id'', PStr ''000000000000000000000000'')],
      Some (inserted empty_db ''order''
         (Order_dump (example_order [(10 ^ 16, 1)] (10 ^ 16) 1 (10 ^ 16) None))))"
proof -
  note accepted = create_order_large_tax [of _ empty_db, unfolded next_id_empty_db str_ObjectId_0]
  have "Order_constraints (example_order [(10 ^ 16, 1)] (10 ^ 16) 1 (10 ^ 16) None)"
    by (simp add: evaluation)
  moreover have "stated_subtotal_deviation [(10 ^ 16, 1)] (10 ^ 16) = 0"
    by (simp add: evaluation)
  moreover have "stated_total_deviation (10 ^ 16) 1 (10 ^ 16) > 0.01"
    by (simp add: evaluation)
  ultimately show ?thesis
    using accepted [of Sequential] accepted [of Compensated] by blast
qed

text \<open>
  C3, as amended. Whenever the item sum is computed and one of the two checks finds a
  deviation above 0.01 in float arithmetic, the handler raises an \<^verbatim>\<open>HTTPException\<close>
  with status 400, not 500, whose detail is one of the two explicit messages, and the store
  is untouched. The subtotal check runs first: when it finds a deviation, the subtotal
  message is the one reported, whatever the total. Nothing is said of an order whose item
  sum cannot be computed.
\<close>

theorem create_order_violation_is_400:
  assumes "computed_subtotal alg ord = Inr cs"
    and "float_gt (float_abs (float_sub cs (subtotal ord))) (nearest_float 0.01) \<or>
         float_gt (float_abs (float_sub (float_add (subtotal ord) (tax ord)) (total_amount ord)))
           (nearest_float 0.01)"
  shows "\<exists>e. create_order alg db ord = (Inl e, db) \<and>
             status_code e = 400 \<and> status_code e \<noteq> 500 \<and> detail e \<noteq> [] \<and>
             detail e =
               (if float_gt (float_abs (float_sub cs (subtotal ord))) (nearest_float 0.01)
                then ''Subtotal does not match items total''
                else ''Total does not match subtotal + tax'')"
  using assms by (auto simp add: create_order_def total_calc_def)

text \<open>Two items, both relationships violated, and no store connected: the subtotal message,
  status 400.\<close>

theorem create_order_violation_is_400_witness:
  "(\<exists>cs. computed_subtotal Compensated (example_order [(1.5, 2), (2.25, 1)] 5 0.5 7 None) = Inr cs \<and>
      float_gt (float_abs (float_sub cs
          (subtotal (example_order [(1.5, 2), (2.25, 1)] 5 0.5 7 None)))) (nearest_float 0.01)) \<and>
   float_gt (float_abs (float_sub
       (float_add (subtotal (example_order [(1.5, 2), (2.25, 1)] 5 0.5 7 None))
                  (tax (example_order [(1.5, 2), (2.25, 1)] 5 0.5 7 None)))
       (total_amount (example_order [(1.5, 2), (2.25, 1)] 5 0.5 7 None)))) (nearest_float 0.01) \<and>
   (\<exists>e. create_order Compensated None (example_order [(1.5, 2), (2.25, 1)] 5 0.5 7 None) =
          (Inl e, None) \<and>
        status_code e = 400 \<and> detail e = ''Subtotal does not match items total'')"
proof -
  let ?ord = "example_order [(1.5, 2), (2.25, 1)] 5 0.5 7 None"
  have cs: "computed_subtotal Compensated ?ord = Inr (Finite (21 / 4))"
    by (simp add: evaluation)
  have gt1: "float_gt (float_abs (float_sub (Finite (21 / 4)) (subtotal ?ord))) (nearest_float 0.01)"
    by (simp add: evaluation)
  have gt2: "float_gt (float_abs (float_sub (float_add (subtotal ?ord) (tax ?ord))
               (total_amount ?ord))) (nearest_float 0.01)"
    by (simp add: evaluation)
  from create_order_violation_is_400 [OF cs disjI1 [OF gt1], of None] gt1
  have "\<exists>e. create_order Compensated None ?ord = (Inl e, None) \<and>
          status_code e = 400 \<and> detail e = ''Subtotal does not match items total''"
    by auto
  with cs gt1 gt2 show ?thesis by blast
qed

text \<open>
  C3, as stated, fails in both directions. An order of one item at 1.0 with quantity
  \<open>10 ^ 309\<close> and declared subtotal 0 meets the schema and violates the subtotal
  relationship, and the handler answers 500: the product raises \<^verbatim>\<open>OverflowError\<close>
  inside the \<^verbatim>\<open>try\<close>. An order that violates both relationships by exactly 1 at the
  magnitude of 1e16 is accepted and stored, no error being surfaced at all.
\<close>

theorem create_order_violation_is_400_counterexample:
  "Order_constraints (example_order [(1, 10 ^ 309)] 0 0 0 None) \<and>
   stated_subtotal_deviation [(1, 10 ^ 309)] 0 > 0.01 \<and>
   create_order Sequential (Some empty_db) (example_order [(1, 10 ^ 309)] 0 0 0 None) =
     (Inl (HTTPException 500 ''int too large to convert to float''), Some empty_db) \<and>
   create_order Compensated (Some empty_db) (example_order [(1, 10 ^ 309)] 0 0 0 None) =
     (Inl (HTTPException 500 ''int too large to convert to float''), Some empty_db) \<and>
   Order_constraints (example_order [(10 ^ 16, 1), (1, 1)] (10 ^ 16) 1 (10 ^ 16) None) \<and>
   stated_subtotal_deviation [(10 ^ 16, 1), (1, 1)] (10 ^ 16) > 0.01 \<and>
   stated_total_deviation (10 ^ 16) 1 (10 ^ 16) > 0.01 \<and>
   create_order Sequential (Some empty_db)
       (example_order [(10 ^ 16, 1), (1, 1)] (10 ^ 16) 1 (10 ^ 16) None) =
     (Inr [(''id'', PStr ''000000000000000000000000'')],
      Some (inserted empty_db ''order''
         (Order_dump (example_order [(10 ^ 16, 1), (1, 1)] (10 ^ 16) 1 (10 ^ 16) None)))) \<and>
   create_order Compensated (Some empty_db)
       (example_order [(10 ^ 16, 1), (1, 1)] (10 ^ 16) 1 (10 ^ 16) None) =
     (Inr [(''id'', PStr ''000000000000000000000000'')],
      Some (inserted empty_db ''order''
         (Order_dump (example_order [(10 ^ 16, 1), (1, 1)] (10 ^ 16) 1 (10 ^ 16) None))))"
proof -
  note raised = create_order_huge_quantity [of _ "Some empty_db"]
  note accepted = create_order_large_both [of _ empty_db, unfolded next_id_empty_db str_ObjectId_0]
  have "Order_constraints (example_order [(1, 10 ^ 309)] 0 0 0 None)"
    by (simp add: evaluation)
  moreover have "stated_subtotal_deviation [(1, 10 ^ 309)] 0 > 0.01"
    by (simp add: evaluation)
  moreover have "Order_constraints (example_order [(10 ^ 16, 1), (1, 1)] (10 ^ 16) 1 (10 ^ 16) None)"
    by (simp add: evaluation)
  moreover have "stated_subtotal_deviation [(10 ^ 16, 1), (1, 1)] (10 ^ 16) > 0.01"
    by (simp add: evaluation)
  moreover have "stated_total_deviation (10 ^ 16) 1 (10 ^ 16) > 0.01"
    by (simp add: evaluation)
  ultimately show ?thesis
    using raised [of Sequential] raised [of Compensated]
      accepted [of Sequential] accepted [of Compensated] by blast
qed

text \<open>
  C4. The order with one item at 9.99, quantity 1, subtotal 9.99, tax 0.80 and total 10.79
  satisfies the schema and both checks; on a connected store the handler appends its
  document to the collection \<^verbatim>\<open>order\<close> and returns the new identifier under \<^verbatim>\<open>id\<close>.
\<close>

theorem create_order_example_succeeds:
  "Order_constraints (example_order [(9.99, 1)] 9.99 0.80 10.79 None) \<and>
   create_order alg (Some s) (example_order [(9.99, 1)] 9.99 0.80 10.79 None) =
     (Inr [(''id'', PStr (str_ObjectId (ObjectId (next_id s))))],
      Some (inserted s ''order''
              (Order_dump (example_order [(9.99, 1)] 9.99 0.80 10.79 None)))) \<and>
   collections
       (inserted s ''order''
          (Order_dump (example_order [(9.99, 1)] 9.99 0.80 10.79 None))) ''order'' =
     collections s ''order'' @
       [(ObjectId (next_id s),
         Order_dump (example_order [(9.99, 1)] 9.99 0.80 10.79 None))]"
  using Order_constraints_example [of None] create_order_example [of alg s None]
  by (simp add: collections_inserted)

text \<open>On the empty store the identifier returned is the first one, under either summation.\<close>

theorem create_order_example_succeeds_witness:
  "create_order Sequential (Some empty_db) (example_order [(9.99, 1)] 9.99 0.80 10.79 None) =
     (Inr [(''id'', PStr ''000000000000000000000000'')],
      Some (inserted empty_db ''order''
              (Order_dump (example_order [(9.99, 1)] 9.99 0.80 10.79 None)))) \<and>
   create_order Compensated (Some empty_db) (example_order [(9.99, 1)] 9.99 0.80 10.79 None) =
     (Inr [(''id'', PStr ''000000000000000000000000'')],
      Some (inserted empty_db ''order''
              (Order_dump (example_order [(9.99, 1)] 9.99 0.80 10.79 None))))"
  using create_order_example_succeeds [of Sequential empty_db]
    create_order_example_succeeds [of Compensated empty_db]
  unfolding next_id_empty_db str_ObjectId_0 by blast

text \<open>
  C10, as amended. Both checks compare the computed float deviation with the double nearest
  to 0.01, using \<open>>\<close>: when the item sum is computed and one computed deviation equals
  that double while the other does not exceed it, the order is accepted and persisted on
  a connected store.
\<close>

theorem create_order_at_tolerance:
  assumes "computed_subtotal alg ord = Inr cs"
    and "float_abs (float_sub cs (subtotal ord)) = nearest_float 0.01 \<and>
           \<not> float_gt (float_abs (float_sub (float_add (subtotal ord) (tax ord))
                 (total_amount ord))) (nearest_float 0.01) \<or>
         \<not> float_gt (float_abs (float_sub cs (subtotal ord))) (nearest_float 0.01) \<and>
           float_abs (float_sub (float_add (subtotal ord) (tax ord)) (total_amount ord)) =
             nearest_float 0.01"
  shows "create_order alg (Some s) ord =
           (Inr [(''id'', PStr (str_ObjectId (ObjectId (next_id s))))],
            Some (inserted s ''order'' (Order_dump ord)))"
  using assms by (auto simp add: create_order_def total_calc_def create_document_connected)

text \<open>One item at 0.01, declared subtotal 0, tax 0.01, total 0.02: both computed deviations
  are the double of 0.01.\<close>

theorem create_order_at_tolerance_witness:
  "Order_constraints (example_order [(0.01, 1)] 0 0.01 0.02 None) \<and>
   (\<exists>cs. computed_subtotal Sequential (example_order [(0.01, 1)] 0 0.01 0.02 None) = Inr cs \<and>
      float_abs (float_sub cs (subtotal (example_order [(0.01, 1)] 0 0.01 0.02 None))) =
        nearest_float 0.01) \<and>
   float_abs (float_sub
       (float_add (subtotal (example_order [(0.01, 1)] 0 0.01 0.02 None))
                  (tax (example_order [(0.01, 1)] 0 0.01 0.02 None)))
       (total_amount (example_order [(0.01, 1)] 0 0.01 0.02 None))) = nearest_float 0.01 \<and>
   create_order Sequential (Some empty_db) (example_order [(0.01, 1)] 0 0.01 0.02 None) =
     (Inr [(''id'', PStr ''000000000000000000000000'')],
      Some (inserted empty_db ''order''
              (Order_dump (example_order [(0.01, 1)] 0 0.01 0.02 None))))"
proof -
  let ?ord = "example_order [(0.01, 1)] 0 0.01 0.02 None"
  have ok: "Order_constraints ?ord"
    by (simp add: evaluation)
  have cs: "computed_subtotal Sequential ?ord =
              Inr (Finite (5764607523034235 / 576460752303423488))"
    by (simp add: evaluation)
  have d1: "float_abs (float_sub (Finite (5764607523034235 / 576460752303423488))
              (subtotal ?ord)) = nearest_float 0.01"
    by (simp add: evaluation)
  have d2: "float_abs (float_sub (float_add (subtotal ?ord) (tax ?ord)) (total_amount ?ord)) =
              nearest_float 0.01"
    by (simp add: evaluation)
  have "\<not> float_gt (float_abs (float_sub (float_add (subtotal ?ord) (tax ?ord))
              (total_amount ?ord))) (nearest_float 0.01)"
    unfolding d2 by simp
  with d1 have hyp:
    "float_abs (float_sub (Finite (5764607523034235 / 576460752303423488)) (subtotal ?ord)) =
       nearest_float 0.01 \<and>
     \<not> float_gt (float_abs (float_sub (float_add (subtotal ?ord) (tax ?ord))
           (total_amount ?ord))) (nearest_float 0.01) \<or>
     \<not> float_gt (float_abs (float_sub (Finite (5764607523034235 / 576460752303423488))
           (subtotal ?ord))) (nearest_float 0.01) \<and>
     float_abs (float_sub (float_add (subtotal ?ord) (tax ?ord)) (total_amount ?ord)) =
       nearest_float 0.01"
    by blast
  from create_order_at_tolerance [OF cs hyp, of empty_db]
  have "create_order Sequential (Some empty_db) ?ord =
     (Inr [(''id'', PStr ''000000000000000000000000'')],
      Some (inserted empty_db ''order'' (Order_dump ?ord)))"
    unfolding next_id_empty_db str_ObjectId_0 .
  with ok cs d1 d2 show ?thesis by blast
qed

text \<open>
  C10, as stated, fails: with subtotal 9.99, tax 0.80 and total 10.78 the subtotal agrees
  and \<open>subtotal + tax\<close> deviates from the total by exactly 0.01, yet
  \<^verbatim>\<open>abs(9.99 + 0.8 - 10.78)\<close> is a double above \<^verbatim>\<open>0.01\<close> and the order is refused.
\<close>

theorem create_order_at_tolerance_counterexample:
  "Order_constraints (example_order [(9.99, 1)] 9.99 0.80 10.78 None) \<and>
   stated_subtotal_deviation [(9.99, 1)] 9.99 = 0 \<and>
   stated_total_deviation 9.99 0.80 10.78 = 0.01 \<and>
   create_order Sequential (Some empty_db) (example_order [(9.99, 1)] 9.99 0.80 10.78 None) =
     (Inl (HTTPException 400 ''Total does not match subtotal + tax''), Some empty_db) \<and>
   create_order Compensated (Some empty_db) (example_order [(9.99, 1)] 9.99 0.80 10.78 None) =
     (Inl (HTTPException 400 ''Total does not match subtotal + tax''), Some empty_db)"
proof -
  note refused = create_order_decimal_boundary [of _ "Some empty_db"]
  have "Order_constraints (example_order [(9.99, 1)] 9.99 0.80 10.78 None)"
    by (simp add: evaluation)
  moreover have "stated_subtotal_deviation [(9.99, 1)] 9.99 = 0"
    by (simp add: evaluation)
  moreover have "stated_total_deviation 9.99 0.80 10.78 = 0.01"
    by (simp add: evaluation)
  ultimately show ?thesis
    using refused [of Sequential] refused [of Compensated] by blast
qed

section \<open>The status of an order\<close>

text \<open>
  C8. The claim: every order accepted at creation has a status among pending, confirmed,
  delivered and cancelled, pending being the default. The default holds
  (\<open>Order_init_status\<close>), but the schema declares \<^verbatim>\<open>status: str\<close> and checks
  nothing: the order below satisfies every declared constraint and both consistency checks,
  carries the status \<^verbatim>\<open>shipped\<close>, which the field's description does not list, and is
  accepted and stored with that status.
\<close>

theorem create_order_accepts_undocumented_status:
  "Order_constraints (example_order [(9.99, 1)] 9.99 0.80 10.79 (Some ''shipped'')) \<and>
   status (example_order [(9.99, 1)] 9.99 0.80 10.79 (Some ''shipped''))
     \<notin> set documented_statuses \<and>
   create_order alg (Some empty_db)
       (example_order [(9.99, 1)] 9.99 0.80 10.79 (Some ''shipped'')) =
     (Inr [(''id'', PStr ''000000000000000000000000'')],
      Some (inserted empty_db ''order''
              (Order_dump
                 (example_order [(9.99, 1)] 9.99 0.80 10.79 (Some ''shipped''))))) \<and>
   map_of (Order_dump (example_order [(9.99, 1)] 9.99 0.80 10.79 (Some ''shipped'')))
       ''status'' = Some (PStr ''shipped'')"
proof -
  note accepted = create_order_example [of alg empty_db "Some ''shipped''",
      unfolded next_id_empty_db str_ObjectId_0]
  have "status (example_order [(9.99, 1)] 9.99 0.80 10.79 (Some ''shipped''))
          \<notin> set documented_statuses"
    by (simp add: example_order_status documented_statuses_def)
  moreover have "map_of (Order_dump (example_order [(9.99, 1)] 9.99 0.80 10.79 (Some ''shipped'')))
       ''status'' = Some (PStr ''shipped'')"
    by (simp add: Order_dump_def example_order_status)
  ultimately show ?thesis
    using Order_constraints_example [of "Some ''shipped''"] accepted by blast
qed

section \<open>Seeding\<close>

text \<open>
  C5. On a connected store that already holds a product, seeding changes nothing and
  answers \<^verbatim>\<open>seeded: false\<close> with the number of products found. On a connected store
  with no product it answers \<^verbatim>\<open>seeded: true\<close>, \<^verbatim>\<open>count: 4\<close>, and the product
  collection then holds exactly the four demo products, in order, every other collection
  being as before.
\<close>

theorem seed_products_only_when_empty:
  "(collections s ''product'' \<noteq> [] \<longrightarrow>
      seed_products (Some s) =
        (Inr [(''seeded'', PBool False),
              (''count'', PInt (int (length (collections s ''product''))))], Some s)) \<and>
   (collections s ''product'' = [] \<longrightarrow>
      (\<exists>s'. seed_products (Some s) =
               (Inr [(''seeded'', PBool True), (''count'', PInt 4)], Some s') \<and>
            map snd (collections s' ''product'') = demo \<and>
            length (collections s' ''product'') = 4 \<and>
            (\<forall>name. name \<noteq> ''product'' \<longrightarrow> collections s' name = collections s name)))"
proof (intro conjI impI)
  assume "collections s ''product'' \<noteq> []"
  then show "seed_products (Some s) =
        (Inr [(''seeded'', PBool False),
              (''count'', PInt (int (length (collections s ''product''))))], Some s)"
    by (simp add: seed_products_def get_documents_connected matches_empty)
next
  assume empty: "collections s ''product'' = []"
  let ?s' = "fold (\<lambda>p t. inserted t ''product'' p) demo s"
  have "seed_products (Some s) = (Inr [(''seeded'', PBool True), (''count'', PInt 4)], Some ?s')"
    using empty
    by (simp add: seed_products_def get_documents_connected create_each_connected length_demo)
  moreover have products: "map snd (collections ?s' ''product'') = demo"
    using empty by (simp add: collections_fold_inserted)
  moreover have "length (collections ?s' ''product'') = 4"
    using arg_cong [OF products, of length] by (simp add: length_demo)
  moreover have "\<forall>name. name \<noteq> ''product'' \<longrightarrow> collections ?s' name = collections s name"
    by (simp add: collections_fold_inserted_other)
  ultimately show "\<exists>s'. seed_products (Some s) =
               (Inr [(''seeded'', PBool True), (''count'', PInt 4)], Some s') \<and>
            map snd (collections s' ''product'') = demo \<and>
            length (collections s' ''product'') = 4 \<and>
            (\<forall>name. name \<noteq> ''product'' \<longrightarrow> collections s' name = collections s name)"
    by blast
qed

text \<open>A store with two products is left alone; the empty store receives the four.\<close>

theorem seed_products_only_when_empty_witness:
  "seed_products (Some shop_db) =
     (Inr [(''seeded'', PBool False), (''count'', PInt 2)], Some shop_db) \<and>
   (\<exists>s'. seed_products (Some empty_db) =
            (Inr [(''seeded'', PBool True), (''count'', PInt 4)], Some s') \<and>
         map snd (collections s' ''product'') = demo \<and>
         length (collections s' ''product'') = 4 \<and>
         collections s' ''order'' = [])"
proof
  show "seed_products (Some shop_db) =
     (Inr [(''seeded'', PBool False), (''count'', PInt 2)], Some shop_db)"
    using seed_products_only_when_empty [of shop_db] by (simp add: shop_db_collections)
  have "collections empty_db ''product'' = []" "collections empty_db ''order'' = []"
    by (simp_all add: empty_db_def)
  with seed_products_only_when_empty [of empty_db]
  show "\<exists>s'. seed_products (Some empty_db) =
            (Inr [(''seeded'', PBool True), (''count'', PInt 4)], Some s') \<and>
         map snd (collections s' ''product'') = demo \<and>
         length (collections s' ''product'') = 4 \<and>
         collections s' ''order'' = []"
    by auto
qed

section \<open>Listing\<close>

text \<open>
  C6. On a connected store both listing handlers return, and every dict they return stands
  for a stored document of the collection: it has no \<^verbatim>\<open>_id\<close>, its \<^verbatim>\<open>id\<close> is the
  string form of the stored identifier, and every key other than these two has the stored
  value.
\<close>

theorem listed_documents_carry_id:
  "(\<exists>docs. list_products (Some s) category = Inr docs \<and>
       (\<forall>d\<in>set docs. \<exists>st\<in>set (collections s ''product''). id_replaces_oid st d)) \<and>
   (\<exists>docs. list_orders (Some s) = Inr docs \<and>
       (\<forall>d\<in>set docs. \<exists>st\<in>set (collections s ''order''). id_replaces_oid st d))"
proof
  show "\<exists>docs. list_products (Some s) category = Inr docs \<and>
       (\<forall>d\<in>set docs. \<exists>st\<in>set (collections s ''product''). id_replaces_oid st d)"
  proof (cases "category = None \<or> category = Some []")
    case True
    from list_products_all [OF this, of s] list_all2_into_set show ?thesis by blast
  next
    case False
    then obtain c where c: "category = Some c" "c \<noteq> []" by auto
    from list_products_category [OF c(2), of s] obtain docs where
      docs: "list_products (Some s) (Some c) = Inr docs"
      "list_all2 id_replaces_oid
         (filter (\<lambda>st. map_of (snd st) ''category'' = Some (PStr c))
            (collections s ''product'')) docs"
      by blast
    from list_all2_into_set [OF docs(2)]
    have "\<forall>d\<in>set docs. \<exists>st\<in>set (collections s ''product''). id_replaces_oid st d"
      by auto
    with docs(1) c(1) show ?thesis by blast
  qed
  from list_orders_connected [of s] list_all2_into_set
  show "\<exists>docs. list_orders (Some s) = Inr docs \<and>
       (\<forall>d\<in>set docs. \<exists>st\<in>set (collections s ''order''). id_replaces_oid st d)"
    by blast
qed

theorem listed_documents_carry_id_witness:
  "(\<exists>d. list_products (Some shop_db) (Some ''Pizza'') = Inr [d] \<and>
        (\<exists>st\<in>set (collections shop_db ''product''). id_replaces_oid st d)) \<and>
   (\<exists>d. list_orders (Some shop_db) = Inr [d] \<and>
        (\<exists>st\<in>set (collections shop_db ''order''). id_replaces_oid st d))"
  using listed_documents_carry_id [of shop_db "Some ''Pizza''"]
  by (simp add: list_products_pizza list_orders_shop)

text \<open>
  C7. For a non-empty category \<open>c\<close>, listing the products of a connected store returns one
  dict for each stored product whose \<^verbatim>\<open>category\<close> is the string \<open>c\<close>, in stored order,
  and for no other; with no category it returns one dict for each stored product.
\<close>

theorem list_products_selects_category:
  assumes "c \<noteq> []"
  shows "(\<exists>docs. list_products (Some s) (Some c) = Inr docs \<and>
            list_all2 id_replaces_oid
              (filter (\<lambda>st. map_of (snd st) ''category'' = Some (PStr c))
                 (collections s ''product'')) docs) \<and>
         (\<exists>docs. list_products (Some s) None = Inr docs \<and>
            list_all2 id_replaces_oid (collections s ''product'') docs)"
  using list_products_category [OF assms, of s] list_products_all [of None s] by simp

theorem list_products_selects_category_witness:
  "''Pizza'' \<noteq> [] \<and>
   (\<exists>docs. list_products (Some shop_db) (Some ''Pizza'') = Inr docs \<and>
      list_all2 id_replaces_oid
        [(ObjectId 0, [(''title'', PStr ''Margherita Pizza''), (''category'', PStr ''Pizza'')])]
        docs) \<and>
   (\<exists>docs. list_products (Some shop_db) None = Inr docs \<and>
      list_all2 id_replaces_oid
        [(ObjectId 0, [(''title'', PStr ''Margherita Pizza''), (''category'', PStr ''Pizza'')]),
         (ObjectId 1, [(''title'', PStr ''Iced Latte''), (''category'', PStr ''Drinks'')])]
        docs)"
  using list_products_selects_category [of "''Pizza''" shop_db]
  by (simp add: shop_db_collections)

text \<open>
  C9. The empty string as category is falsy, so the filter is empty: the handler answers
  as it does with no category, and on a connected store that is one dict for each stored
  product, whatever its category.
\<close>

theorem list_products_empty_category:
  "list_products db (Some []) = list_products db None \<and>
   (\<exists>docs. list_products (Some s) (Some []) = Inr docs \<and>
      list_all2 id_replaces_oid (collections s ''product'') docs)"
  using list_products_all [of "Some []" s] by (simp add: list_products_def)

theorem list_products_empty_category_witness:
  "list_products (Some shop_db) (Some []) = list_products (Some shop_db) None \<and>
   (\<exists>docs. list_products (Some shop_db) (Some []) = Inr docs \<and>
      list_all2 id_replaces_oid
        [(ObjectId 0, [(''title'', PStr ''Margherita Pizza''), (''category'', PStr ''Pizza'')]),
         (ObjectId 1, [(''title'', PStr ''Iced Latte''), (''category'', PStr ''Drinks'')])]
        docs)"
  using list_products_empty_category [of "Some shop_db" shop_db]
  unfolding shop_db_collections .


end
